theory Spec2Isabelle
  imports Main
begin

section \<open>JavaScript values\<close>

text \<open>
  The clients are written against untyped payloads (\<^verbatim>\<open>any\<close>): tool entries, tool results
  and conversation messages are plain JavaScript objects that travel as JSON. They are
  modelled by the datatype \<open>json\<close>; the JavaScript value \<^verbatim>\<open>undefined\<close> (an absent
  property) is \<open>None\<close> of \<open>json option\<close>. Numbers are restricted to the integers that
  JavaScript prints digit by digit (of magnitude below \<open>10\<^sup>2\<^sup>1\<close>); objects are association
  lists in property order, with distinct keys.
\<close>

datatype json =
    JNull
  | JBool bool
  | JNum int
  | JStr string
  | JArr "json list"
  | JObj "(string \<times> json) list"

text \<open>Truthiness, as tested by \<^verbatim>\<open>if (v)\<close>, \<^verbatim>\<open>v || d\<close> and \<^verbatim>\<open>v && w\<close>.\<close>

fun truthy :: "json option \<Rightarrow> bool" where
  "truthy None = False"
| "truthy (Some JNull) = False"
| "truthy (Some (JBool b)) = b"
| "truthy (Some (JNum n)) = (n \<noteq> 0)"
| "truthy (Some (JStr s)) = (s \<noteq> [])"
| "truthy (Some (JArr xs)) = True"
| "truthy (Some (JObj kvs)) = True"

text \<open>
  Reading a named data property \<^verbatim>\<open>v.k\<close> of a value that is not \<^verbatim>\<open>null\<close>: an object
  yields the stored value, every other value yields \<^verbatim>\<open>undefined\<close> for the property
  names the clients read (\<^verbatim>\<open>content\<close>, \<^verbatim>\<open>type\<close>, \<^verbatim>\<open>text\<close>, \<^verbatim>\<open>name\<close>, \<^verbatim>\<open>description\<close>,
  \<^verbatim>\<open>inputSchema\<close>, \<^verbatim>\<open>tools\<close>). Reading a property of \<^verbatim>\<open>null\<close> throws; that case is
  written out at each use.
\<close>

fun get_prop :: "json \<Rightarrow> string \<Rightarrow> json option" where
  "get_prop (JObj kvs) k = map_of kvs k"
| "get_prop v k = None"

subsection \<open>Exceptions\<close>

text \<open>
  A thrown \<^verbatim>\<open>Error\<close> object: its \<^verbatim>\<open>name\<close> and its \<^verbatim>\<open>message\<close>. \<open>exn_toString\<close> is
  \<^verbatim>\<open>Error.prototype.toString\<close>, which a template literal \<^verbatim>\<open>${error}\<close> calls.
\<close>

datatype exn = Exn (exn_name: string) (message: string)

definition exn_toString :: "exn \<Rightarrow> string" where
  "exn_toString e =
     (if exn_name e = [] then message e
      else if message e = [] then exn_name e
      else exn_name e @ '': '' @ message e)"

definition Error :: "string \<Rightarrow> exn" where
  "Error msg = Exn ''Error'' msg"

text \<open>The \<^verbatim>\<open>TypeError\<close> of reading property \<open>k\<close> of \<^verbatim>\<open>null\<close> (message text of Node.js).\<close>

definition null_read :: "string \<Rightarrow> exn" where
  "null_read k =
     Exn ''TypeError''
       (''Cannot read properties of null (reading '' @ [CHR 0x27] @ k @ [CHR 0x27] @ '')'')"

subsection \<open>Conversion to strings\<close>

fun string_of_nat :: "nat \<Rightarrow> string" where
  "string_of_nat n =
     (if n < 10 then [''0123456789'' ! n]
      else string_of_nat (n div 10) @ [''0123456789'' ! (n mod 10)])"

declare string_of_nat.simps [simp del]

definition string_of_int :: "int \<Rightarrow> string" where
  "string_of_int i = (if i < 0 then CHR ''-'' # string_of_nat (nat (- i)) else string_of_nat (nat i))"

text \<open>Concatenation of strings with a separator between neighbours.\<close>

fun join_strings :: "string \<Rightarrow> string list \<Rightarrow> string" where
  "join_strings sep [] = []"
| "join_strings sep [s] = s"
| "join_strings sep (s # t # ss) = s @ sep @ join_strings sep (t # ss)"

text \<open>
  \<open>js_String\<close> is the conversion \<^verbatim>\<open>String(v)\<close> that template literals, \<^verbatim>\<open>+=\<close> on strings
  and \<^verbatim>\<open>Array.prototype.join\<close> apply to a value. An array converts by joining its
  elements with a comma, where \<^verbatim>\<open>null\<close> elements count as the empty string.
\<close>

fun js_String :: "json \<Rightarrow> string" where
  "js_String JNull = ''null''"
| "js_String (JBool b) = (if b then ''true'' else ''false'')"
| "js_String (JNum n) = string_of_int n"
| "js_String (JStr s) = s"
| "js_String (JArr xs) =
     join_strings '','' (map (\<lambda>x. if x = JNull then [] else js_String x) xs)"
| "js_String (JObj kvs) = ''[object Object]''"

text \<open>\<^verbatim>\<open>String(v)\<close> for a possibly undefined value.\<close>

definition js_String_opt :: "json option \<Rightarrow> string" where
  "js_String_opt v = (case v of None \<Rightarrow> ''undefined'' | Some j \<Rightarrow> js_String j)"

text \<open>
  \<^verbatim>\<open>xs.join(sep)\<close>: \<^verbatim>\<open>undefined\<close> and \<^verbatim>\<open>null\<close> elements contribute the empty string,
  every other element its string conversion.
\<close>

definition join_element :: "json option \<Rightarrow> string" where
  "join_element v = (case v of None \<Rightarrow> [] | Some JNull \<Rightarrow> [] | Some j \<Rightarrow> js_String j)"

definition js_join :: "string \<Rightarrow> json option list \<Rightarrow> string" where
  "js_join sep vs = join_strings sep (map join_element vs)"

subsection \<open>\<^verbatim>\<open>JSON.stringify\<close>\<close>

definition hex_digit :: "nat \<Rightarrow> char" where
  "hex_digit n = ''0123456789abcdef'' ! n"

definition escape_char :: "char \<Rightarrow> string" where
  "escape_char c =
     (if c = CHR 0x22 then [CHR 0x5C, CHR 0x22]
      else if c = CHR 0x5C then [CHR 0x5C, CHR 0x5C]
      else if c = CHR 0x08 then [CHR 0x5C, CHR ''b'']
      else if c = CHR 0x0C then [CHR 0x5C, CHR ''f'']
      else if c = CHR 0x0A then [CHR 0x5C, CHR ''n'']
      else if c = CHR 0x0D then [CHR 0x5C, CHR ''r'']
      else if c = CHR 0x09 then [CHR 0x5C, CHR ''t'']
      else if of_char c < (32::nat) then
        [CHR 0x5C, CHR ''u'', CHR ''0'', CHR ''0'',
         hex_digit (of_char c div 16), hex_digit (of_char c mod 16)]
      else [c])"

definition quote :: "string \<Rightarrow> string" where
  "quote s = [CHR 0x22] @ concat (map escape_char s) @ [CHR 0x22]"

fun JSON_stringify :: "json \<Rightarrow> string" where
  "JSON_stringify JNull = ''null''"
| "JSON_stringify (JBool b) = (if b then ''true'' else ''false'')"
| "JSON_stringify (JNum n) = string_of_int n"
| "JSON_stringify (JStr s) = quote s"
| "JSON_stringify (JArr xs) = ''['' @ join_strings '','' (map JSON_stringify xs) @ '']''"
| "JSON_stringify (JObj kvs) =
     ''{'' @ join_strings '','' (map (\<lambda>(k, v). quote k @ '':'' @ JSON_stringify v) kvs) @ ''}''"

section \<open>Normalisation of a tool result\<close>

text \<open>
  The block that all three \<^verbatim>\<open>ask\<close> methods run on the value returned by \<^verbatim>\<open>callTool\<close>
  (\<^verbatim>\<open>oai2.ts\<close>, first and second class, and the Anthropic client):
  \<^verbatim>\<open>
  let resultContent = '';
  if (toolResult.content) {
    if (Array.isArray(toolResult.content)) {
      resultContent = toolResult.content
        .map((item: any) => item.type === 'text' ? item.text : JSON.stringify(item))
        .join('\n');
    } else {
      resultContent = typeof toolResult.content === 'string'
        ? toolResult.content
        : JSON.stringify(toolResult.content);
    }
  } else {
    resultContent = JSON.stringify(toolResult);
  }
  \<close>
  It runs inside the \<^verbatim>\<open>try\<close> of the tool call, so the result is either the text or the
  exception thrown on the way (\<open>Inl\<close>).
\<close>

definition item_entry :: "json \<Rightarrow> exn + json option" where
  "item_entry item =
     (case item of
        JNull \<Rightarrow> Inl (null_read ''type'')
      | _ \<Rightarrow> Inr (if get_prop item ''type'' = Some (JStr ''text'') then get_prop item ''text''
                  else Some (JStr (JSON_stringify item))))"

text \<open>\<^verbatim>\<open>xs.map(f)\<close> for a callback that may throw: the first exception ends the traversal.\<close>

fun map_exn :: "('a \<Rightarrow> exn + 'b) \<Rightarrow> 'a list \<Rightarrow> exn + 'b list" where
  "map_exn f [] = Inr []"
| "map_exn f (x # xs) =
     (case f x of
        Inl e \<Rightarrow> Inl e
      | Inr v \<Rightarrow> (case map_exn f xs of Inl e \<Rightarrow> Inl e | Inr vs \<Rightarrow> Inr (v # vs)))"

definition resultContent :: "json \<Rightarrow> exn + string" where
  "resultContent toolResult =
     (case toolResult of
        JNull \<Rightarrow> Inl (null_read ''content'')
      | _ \<Rightarrow>
        (let content = get_prop toolResult ''content'' in
         if truthy content then
           (case content of
              Some (JArr items) \<Rightarrow>
                (case map_exn item_entry items of
                   Inl e \<Rightarrow> Inl e
                 | Inr vs \<Rightarrow> Inr (js_join [CHR 0x0A] vs))
            | Some (JStr s) \<Rightarrow> Inr s
            | Some c \<Rightarrow> Inr (JSON_stringify c)
            | None \<Rightarrow> Inr (JSON_stringify toolResult))
         else Inr (JSON_stringify toolResult)))"

section \<open>The tool server, the provider endpoint and the client state\<close>

text \<open>
  The collaborators are parameters of the model. Their state (the tool server process,
  the network, the provider's quota) is a value of an arbitrary type \<open>'w\<close> that every
  call receives and returns, so that the order and the number of the calls are visible.
  \<^item> \<open>sdk_connect\<close> is \<^verbatim>\<open>this.client.connect(this.transport)\<close>, \<open>sdk_listTools\<close> is
    \<^verbatim>\<open>this.client.listTools()\<close>, \<open>sdk_callTool\<close> is
    \<^verbatim>\<open>this.client.callTool({name, arguments})\<close>; \<open>Inl\<close> is a rejected promise.
  \<^item> \<open>fetch\<close> is the HTTP request to the completion endpoint with the given request
    body, see \<open>response\<close> below.
  \<^item> \<open>JSON_parse\<close> is \<^verbatim>\<open>JSON.parse\<close>; \<open>Inl\<close> is the \<^verbatim>\<open>SyntaxError\<close> it throws.
\<close>

datatype 'r response =
    NetworkError exn
  | HttpError nat string
  | HttpOk 'r

text \<open>
  \<open>NetworkError e\<close>: \<^verbatim>\<open>fetch\<close> rejected. \<open>HttpError status body\<close>: \<^verbatim>\<open>response.ok\<close> is false,
  with \<^verbatim>\<open>response.status\<close> and \<^verbatim>\<open>await response.text()\<close>. \<open>HttpOk r\<close>: \<^verbatim>\<open>response.ok\<close> is
  true and \<open>r\<close> is the parsed reply, of the shape that the client's interfaces declare.
\<close>

record ('w, 'req, 'rep) env =
  sdk_connect :: "'w \<Rightarrow> (exn + unit) \<times> 'w"
  sdk_listTools :: "'w \<Rightarrow> (exn + json) \<times> 'w"
  sdk_callTool :: "string \<Rightarrow> json \<Rightarrow> 'w \<Rightarrow> (exn + json) \<times> 'w"
  fetch :: "'req \<Rightarrow> 'w \<Rightarrow> 'rep response \<times> 'w"
  JSON_parse :: "string \<Rightarrow> exn + json"

text \<open>
  The fields of \<^verbatim>\<open>MCPClient\<close> that the modelled methods read or write. The arrays are
  held by value here; the store of section \<open>Copies handed out by the getters\<close> models
  their identity.
\<close>

record client =
  model :: string
  maxTokens :: int
  availableTools :: "json list"
  conversationHistory :: "json list"
  isConnected :: bool

text \<open>\<^verbatim>\<open>this.conversationHistory.push(m)\<close>\<close>

definition push_history :: "json \<Rightarrow> client \<Rightarrow> client" where
  "push_history m c = c\<lparr>conversationHistory := conversationHistory c @ [m]\<rparr>"

section \<open>The tool catalog\<close>

text \<open>
  \<^verbatim>\<open>
  private async loadTools(): Promise<void> {
    try {
      const result = await this.client.listTools();
      this.availableTools = result.tools || [];
      console.log(`Loaded ${this.availableTools.length} tools:`,
        this.availableTools.map(t => t.name));
    } catch (error) {
      console.warn('Failed to load tools:', error);
      this.availableTools = [];
    }
  }
  \<close>
  The whole body is inside the \<^verbatim>\<open>try\<close>: a rejected listing, a \<^verbatim>\<open>null\<close> result, a
  \<^verbatim>\<open>tools\<close> value without a \<^verbatim>\<open>map\<close> method and a \<^verbatim>\<open>null\<close> entry (whose \<^verbatim>\<open>t.name\<close> throws
  in the logging line) all end in the \<^verbatim>\<open>catch\<close>. \<open>listed_tools\<close> is the value of
  \<^verbatim>\<open>this.availableTools\<close> when the \<^verbatim>\<open>try\<close> block completes, \<open>Inl\<close> when it throws.
\<close>

definition not_a_function :: "string \<Rightarrow> exn" where
  "not_a_function what = Exn ''TypeError'' (what @ '' is not a function'')"

definition listed_tools :: "json \<Rightarrow> exn + json list" where
  "listed_tools result =
     (case result of
        JNull \<Rightarrow> Inl (null_read ''tools'')
      | _ \<Rightarrow>
        (if truthy (get_prop result ''tools'') then
           (case get_prop result ''tools'' of
              Some (JArr ts) \<Rightarrow>
                (case map_exn (\<lambda>t. case t of JNull \<Rightarrow> Inl (null_read ''name'')
                                       | _ \<Rightarrow> Inr (get_prop t ''name'')) ts of
                   Inl e \<Rightarrow> Inl e
                 | Inr names \<Rightarrow> Inr ts)
            | _ \<Rightarrow> Inl (not_a_function ''this.availableTools.map''))
         else Inr []))"

text \<open>
  The outcome of a method is \<open>Inl e\<close> when it throws \<open>e\<close> to its caller and \<open>Inr v\<close> when
  it returns \<open>v\<close>. \<^verbatim>\<open>loadTools\<close> has no \<^verbatim>\<open>throw\<close> outside its \<^verbatim>\<open>try\<close>.
\<close>

definition loadTools ::
  "('w, 'req, 'rep) env \<Rightarrow> client \<Rightarrow> 'w \<Rightarrow> (exn + unit) \<times> client \<times> 'w" where
  "loadTools env c w =
     (case sdk_listTools env w of
        (Inl error, w') \<Rightarrow> (Inr (), c\<lparr>availableTools := []\<rparr>, w')
      | (Inr result, w') \<Rightarrow>
          (case listed_tools result of
             Inl error \<Rightarrow> (Inr (), c\<lparr>availableTools := []\<rparr>, w')
           | Inr ts \<Rightarrow> (Inr (), c\<lparr>availableTools := ts\<rparr>, w')))"

subsection \<open>Conversion to the providers' tool schemas\<close>

record OpenAITool =
  tool_type :: string
  fn_name :: "json option"
  fn_description :: "json option"
  fn_parameters :: "json option"

record AnthropicTool =
  at_name :: "json option"
  at_description :: "json option"
  at_input_schema :: "json option"

text \<open>
  The records hold the properties of the object literals that the conversions build
  (\<open>fn_name\<close>, \<open>fn_description\<close>, \<open>fn_parameters\<close> are the properties of the nested
  \<^verbatim>\<open>function\<close> object); \<open>None\<close> is a property whose value is \<^verbatim>\<open>undefined\<close>.
  \<^verbatim>\<open>a || b\<close> is \<open>a\<close> when \<open>a\<close> is truthy and \<open>b\<close> otherwise.
\<close>

definition or_else :: "json option \<Rightarrow> json option \<Rightarrow> json option" where
  "or_else a b = (if truthy a then a else b)"

text \<open>
  \<^verbatim>\<open>
  private convertMCPToolsToOpenAI(): OpenAITool[] {
    return this.availableTools.map(tool => ({
      type: 'function',
      function: {
        name: tool.name,
        description: tool.description || `Execute ${tool.name}`,
        parameters: tool.inputSchema || { type: 'object', properties: {}, required: [] }
      }
    }));
  }
  \<close>
\<close>

definition openai_schema :: "json \<Rightarrow> OpenAITool" where
  "openai_schema tool =
     \<lparr>tool_type = ''function'',
      fn_name = get_prop tool ''name'',
      fn_description =
        or_else (get_prop tool ''description'')
          (Some (JStr (''Execute '' @ js_String_opt (get_prop tool ''name'')))),
      fn_parameters =
        or_else (get_prop tool ''inputSchema'')
          (Some (JObj [(''type'', JStr ''object''), (''properties'', JObj []),
                       (''required'', JArr [])]))\<rparr>"

text \<open>The callback throws on a \<^verbatim>\<open>null\<close> entry, whose \<^verbatim>\<open>tool.name\<close> cannot be read.\<close>

definition openai_tool_of :: "json \<Rightarrow> exn + OpenAITool" where
  "openai_tool_of tool =
     (case tool of JNull \<Rightarrow> Inl (null_read ''name'') | _ \<Rightarrow> Inr (openai_schema tool))"

definition convertMCPToolsToOpenAI :: "client \<Rightarrow> exn + OpenAITool list" where
  "convertMCPToolsToOpenAI c = map_exn openai_tool_of (availableTools c)"

text \<open>
  \<^verbatim>\<open>
  private convertMCPToolsToAnthropic(): AnthropicTool[] {
    return this.availableTools.map(tool => ({
      name: tool.name,
      description: tool.description || `Execute ${tool.name}`,
      input_schema: tool.inputSchema || { type: 'object', properties: {} }
    }));
  }
  \<close>
\<close>

definition anthropic_schema :: "json \<Rightarrow> AnthropicTool" where
  "anthropic_schema tool =
     \<lparr>at_name = get_prop tool ''name'',
      at_description =
        or_else (get_prop tool ''description'')
          (Some (JStr (''Execute '' @ js_String_opt (get_prop tool ''name'')))),
      at_input_schema =
        or_else (get_prop tool ''inputSchema'')
          (Some (JObj [(''type'', JStr ''object''), (''properties'', JObj [])]))\<rparr>"

definition anthropic_tool_of :: "json \<Rightarrow> exn + AnthropicTool" where
  "anthropic_tool_of tool =
     (case tool of JNull \<Rightarrow> Inl (null_read ''name'') | _ \<Rightarrow> Inr (anthropic_schema tool))"

definition convertMCPToolsToAnthropic :: "client \<Rightarrow> exn + AnthropicTool list" where
  "convertMCPToolsToAnthropic c = map_exn anthropic_tool_of (availableTools c)"

text \<open>
  The standalone helper of the transformer module:
  \<^verbatim>\<open>
  function transformMCPToolsToOpenAI(mcpTools) {
    return mcpTools.map(tool => ({
      type: 'function',
      function: {
        name: tool.name,
        description: tool.description,
        parameters: tool.inputSchema,
      },
    }));
  }
  \<close>
\<close>

definition transformed_schema :: "json \<Rightarrow> OpenAITool" where
  "transformed_schema tool =
     \<lparr>tool_type = ''function'',
      fn_name = get_prop tool ''name'',
      fn_description = get_prop tool ''description'',
      fn_parameters = get_prop tool ''inputSchema''\<rparr>"

definition transformed_tool_of :: "json \<Rightarrow> exn + OpenAITool" where
  "transformed_tool_of tool =
     (case tool of JNull \<Rightarrow> Inl (null_read ''name'') | _ \<Rightarrow> Inr (transformed_schema tool))"

definition transformMCPToolsToOpenAI :: "json list \<Rightarrow> exn + OpenAITool list" where
  "transformMCPToolsToOpenAI mcpTools = map_exn transformed_tool_of mcpTools"

text \<open>
  \<^verbatim>\<open>
  async connect(): Promise<void> {
    if (this.isConnected) { throw new Error('Client is already connected'); }
    try {
      await this.client.connect(this.transport);
      this.isConnected = true;
      await this.loadTools();
      console.log('MCP Client connected successfully');
    } catch (error) {
      throw new Error(`Failed to connect to MCP server: ${error}`);
    }
  }
  \<close>
\<close>

definition connect ::
  "('w, 'req, 'rep) env \<Rightarrow> client \<Rightarrow> 'w \<Rightarrow> (exn + unit) \<times> client \<times> 'w" where
  "connect env c w =
     (if isConnected c then (Inl (Error ''Client is already connected''), c, w)
      else
        (case sdk_connect env w of
           (Inl error, w1) \<Rightarrow>
             (Inl (Error (''Failed to connect to MCP server: '' @ exn_toString error)), c, w1)
         | (Inr u, w1) \<Rightarrow>
             (case loadTools env (c\<lparr>isConnected := True\<rparr>) w1 of
                (Inl error, c2, w2) \<Rightarrow>
                  (Inl (Error (''Failed to connect to MCP server: '' @ exn_toString error)),
                   c2, w2)
              | (Inr u', c2, w2) \<Rightarrow> (Inr (), c2, w2))))"

section \<open>Calling a tool\<close>

text \<open>
  \<^verbatim>\<open>
  async callTool(name: string, arguments_: any): Promise<any> {
    if (!this.isConnected) { throw new Error('Client is not connected'); }
    try {
      const result = await this.client.callTool({ name, arguments: arguments_ });
      return result;
    } catch (error) {
      throw new Error(`Tool call failed: ${error}`);
    }
  }
  \<close>
\<close>

definition callTool ::
  "('w, 'req, 'rep) env \<Rightarrow> client \<Rightarrow> string \<Rightarrow> json \<Rightarrow> 'w \<Rightarrow> (exn + json) \<times> 'w" where
  "callTool env c name arguments w =
     (if \<not> isConnected c then (Inl (Error ''Client is not connected''), w)
      else
        (case sdk_callTool env name arguments w of
           (Inl error, w') \<Rightarrow> (Inl (Error (''Tool call failed: '' @ exn_toString error)), w')
         | (Inr result, w') \<Rightarrow> (Inr result, w')))"

section \<open>The OpenAI client\<close>

text \<open>
  A reply of the completion endpoint is the assistant message \<^verbatim>\<open>choices[0].message\<close>, of
  the declared shape \<^verbatim>\<open>OpenAIMessage\<close>: \<open>msg_content\<close> is \<^verbatim>\<open>content: string | null\<close>
  (\<open>None\<close> is \<^verbatim>\<open>null\<close>), \<open>msg_tool_calls\<close> is the optional \<^verbatim>\<open>tool_calls\<close> array (\<open>None\<close>
  is an absent property). A tool call carries \<^verbatim>\<open>id\<close>, \<^verbatim>\<open>function.name\<close> and the
  JSON-encoded \<^verbatim>\<open>function.arguments\<close>.
\<close>

record tool_call =
  call_id :: string
  function_name :: string
  function_arguments :: string

record openai_reply =
  msg_content :: "string option"
  msg_tool_calls :: "tool_call list option"

record openai_request =
  req_model :: string
  req_max_tokens :: int
  req_messages :: "json list"
  req_tools :: "OpenAITool list option"
  req_tool_choice :: "string option"

type_synonym 'w openai_env = "('w, openai_request, openai_reply) env"

text \<open>The object literals pushed onto the history.\<close>

definition json_of_content :: "string option \<Rightarrow> json" where
  "json_of_content v = (case v of None \<Rightarrow> JNull | Some s \<Rightarrow> JStr s)"

definition json_of_tool_call :: "tool_call \<Rightarrow> json" where
  "json_of_tool_call tc =
     JObj [(''id'', JStr (call_id tc)), (''type'', JStr ''function''),
           (''function'', JObj [(''name'', JStr (function_name tc)),
                                (''arguments'', JStr (function_arguments tc))])]"

definition user_message :: "string \<Rightarrow> json" where
  "user_message question = JObj [(''role'', JStr ''user''), (''content'', JStr question)]"

definition assistant_tool_message :: "string option \<Rightarrow> tool_call list \<Rightarrow> json" where
  "assistant_tool_message content tcs =
     JObj [(''role'', JStr ''assistant''), (''content'', json_of_content content),
           (''tool_calls'', JArr (map json_of_tool_call tcs))]"

definition tool_message :: "string \<Rightarrow> string \<Rightarrow> json" where
  "tool_message content tool_call_id =
     JObj [(''role'', JStr ''tool''), (''content'', JStr content),
           (''tool_call_id'', JStr tool_call_id)]"

definition assistant_message :: "string option \<Rightarrow> json" where
  "assistant_message content =
     JObj [(''role'', JStr ''assistant''), (''content'', json_of_content content)]"

text \<open>
  \<^verbatim>\<open>
  private async callOpenAI(messages: OpenAIMessage[], tools?: OpenAITool[]): Promise<any> {
    const requestBody: any = { model: this.model, max_tokens: this.maxTokens, messages: messages };
    if (tools && tools.length > 0) {
      requestBody.tools = tools;
      requestBody.tool_choice = 'auto';
    }
    const response = await fetch(`${this.baseUrl}/chat/completions`, { ... });
    if (!response.ok) {
      const error = await response.text();
      throw new Error(`OpenAI API error: ${response.status} ${error}`);
    }
    const result = await response.json();
    return result.choices[0].message;
  }
  \<close>
\<close>

definition callOpenAI ::
  "'w openai_env \<Rightarrow> client \<Rightarrow> json list \<Rightarrow> OpenAITool list \<Rightarrow> 'w
     \<Rightarrow> (exn + openai_reply) \<times> 'w" where
  "callOpenAI env c messages tools w =
     (let requestBody =
            \<lparr>req_model = model c, req_max_tokens = maxTokens c, req_messages = messages,
             req_tools = (if tools \<noteq> [] then Some tools else None),
             req_tool_choice = (if tools \<noteq> [] then Some ''auto'' else None)\<rparr>
      in case fetch env requestBody w of
           (NetworkError error, w') \<Rightarrow> (Inl error, w')
         | (HttpError status error, w') \<Rightarrow>
             (Inl (Error (''OpenAI API error: '' @ string_of_nat status @ '' '' @ error)), w')
         | (HttpOk reply, w') \<Rightarrow> (Inr reply, w'))"

text \<open>
  The body of the \<^verbatim>\<open>for (const toolCall of response.tool_calls)\<close> loop, the same in both
  classes of \<^verbatim>\<open>oai2.ts\<close>:
  \<^verbatim>\<open>
  try {
    const args = JSON.parse(toolCall.function.arguments);
    const toolResult = await this.callTool(toolCall.function.name, args);
    let resultContent = ...;
    this.conversationHistory.push({ role: 'tool', content: resultContent, tool_call_id: toolCall.id });
  } catch (error: any) {
    this.conversationHistory.push({ role: 'tool', content: `Error: ${error.message}`, tool_call_id: toolCall.id });
  }
  \<close>
  \<open>try_tool_call\<close> is the \<^verbatim>\<open>try\<close> block up to the value of \<^verbatim>\<open>resultContent\<close>.
\<close>

definition try_tool_call ::
  "'w openai_env \<Rightarrow> client \<Rightarrow> tool_call \<Rightarrow> 'w \<Rightarrow> (exn + string) \<times> 'w" where
  "try_tool_call env c toolCall w =
     (case JSON_parse env (function_arguments toolCall) of
        Inl error \<Rightarrow> (Inl error, w)
      | Inr args \<Rightarrow>
          (case callTool env c (function_name toolCall) args w of
             (Inl error, w') \<Rightarrow> (Inl error, w')
           | (Inr toolResult, w') \<Rightarrow> (resultContent toolResult, w')))"

definition execute_tool_call ::
  "'w openai_env \<Rightarrow> tool_call \<Rightarrow> client \<times> 'w \<Rightarrow> client \<times> 'w" where
  "execute_tool_call env toolCall cw =
     (case cw of (c, w) \<Rightarrow>
        (case try_tool_call env c toolCall w of
           (Inr text, w') \<Rightarrow>
             (push_history (tool_message text (call_id toolCall)) c, w')
         | (Inl error, w') \<Rightarrow>
             (push_history (tool_message (''Error: '' @ message error) (call_id toolCall)) c,
              w')))"

fun execute_tool_calls ::
  "'w openai_env \<Rightarrow> tool_call list \<Rightarrow> client \<times> 'w \<Rightarrow> client \<times> 'w" where
  "execute_tool_calls env [] cw = cw"
| "execute_tool_calls env (toolCall # rest) cw =
     execute_tool_calls env rest (execute_tool_call env toolCall cw)"

text \<open>
  One pass through the body of the \<^verbatim>\<open>while\<close> loop of \<^verbatim>\<open>ask\<close> (the same in both classes):
  \<^verbatim>\<open>
  this.conversationHistory.push({ role: 'assistant', content: response.content, tool_calls: response.tool_calls });
  for (const toolCall of response.tool_calls) { ... }
  response = await this.callOpenAI(this.conversationHistory, openaiTools);
  \<close>
  \<open>Inl\<close> is the exception of the provider call, which leaves the loop and \<^verbatim>\<open>ask\<close>;
  \<open>Inr\<close> is the next \<^verbatim>\<open>response\<close>.
\<close>

definition tool_calls_of :: "openai_reply \<Rightarrow> tool_call list" where
  "tool_calls_of response = (case msg_tool_calls response of None \<Rightarrow> [] | Some tcs \<Rightarrow> tcs)"

definition tool_round ::
  "'w openai_env \<Rightarrow> OpenAITool list \<Rightarrow> openai_reply \<Rightarrow> client \<times> 'w
     \<Rightarrow> (exn \<times> client \<times> 'w) + (openai_reply \<times> client \<times> 'w)" where
  "tool_round env openaiTools response cw =
     (case cw of (c, w) \<Rightarrow>
        (case execute_tool_calls env (tool_calls_of response)
                (push_history
                   (assistant_tool_message (msg_content response) (tool_calls_of response)) c,
                 w) of
           (c2, w2) \<Rightarrow>
             (case callOpenAI env c2 (conversationHistory c2) openaiTools w2 of
                (Inl error, w3) \<Rightarrow> Inl (error, c2, w3)
              | (Inr next, w3) \<Rightarrow> Inr (next, c2, w3))))"

subsection \<open>The second class of \<^verbatim>\<open>oai2.ts\<close>\<close>

text \<open>
  \<^verbatim>\<open>
  while (response.tool_calls && response.tool_calls.length > 0) { ... }
  this.conversationHistory.push({ role: 'assistant', content: response.content });
  return response.content || '';
  \<close>
\<close>

definition has_tool_calls :: "openai_reply \<Rightarrow> bool" where
  "has_tool_calls response =
     (case msg_tool_calls response of None \<Rightarrow> False | Some tcs \<Rightarrow> 0 < length tcs)"

definition content_or :: "string option \<Rightarrow> string \<Rightarrow> string" where
  "content_or content d =
     (case content of None \<Rightarrow> d | Some s \<Rightarrow> if s \<noteq> [] then s else d)"

definition final_answer ::
  "openai_reply \<Rightarrow> client \<times> 'w \<Rightarrow> (exn + string) \<times> client \<times> 'w" where
  "final_answer response cw =
     (case cw of (c, w) \<Rightarrow>
        (Inr (content_or (msg_content response) []),
         push_history (assistant_message (msg_content response)) c, w))"




subsection \<open>The first class of \<^verbatim>\<open>oai2.ts\<close>\<close>

text \<open>
  The \<^verbatim>\<open>ask\<close> of the first class calls \<^verbatim>\<open>this.convertMCPToolsToOpenAI()\<close> and
  \<^verbatim>\<open>this.callOpenAI(...)\<close>, which that class does not define, and reads the assistant
  message as \<^verbatim>\<open>response.choices[0].message\<close>. The two methods are taken to be those of the
  second class, the reply of the model being that message. The loop body is the one of
  the second class, \<open>tool_round\<close>; the loop condition and the return value differ:
  \<^verbatim>\<open>
  while (response.choices[0].message.tool_calls) { ... }
  const finalMessage = response.choices[0].message;
  this.conversationHistory.push({ role: 'assistant', content: finalMessage.content });
  return finalMessage.content || 'No response content';
  \<close>
  An array is truthy also when it is empty.
\<close>

definition final_answer1 ::
  "openai_reply \<Rightarrow> client \<times> 'w \<Rightarrow> (exn + string) \<times> client \<times> 'w" where
  "final_answer1 finalMessage cw =
     (case cw of (c, w) \<Rightarrow>
        (Inr (content_or (msg_content finalMessage) ''No response content''),
         push_history (assistant_message (msg_content finalMessage)) c, w))"




section \<open>The Anthropic client\<close>

text \<open>
  A reply of the messages endpoint: its \<^verbatim>\<open>stop_reason\<close> and its \<^verbatim>\<open>content\<close> blocks, of
  the shape declared in \<^verbatim>\<open>AnthropicMessage\<close>: a text block with its \<^verbatim>\<open>text\<close>, a
  \<^verbatim>\<open>tool_use\<close> block with \<^verbatim>\<open>id\<close>, \<^verbatim>\<open>name\<close> and the structured \<^verbatim>\<open>input\<close>.
\<close>

datatype content_block =
    TextBlock string
  | ToolUseBlock string string json

record anthropic_reply =
  stop_reason :: string
  reply_content :: "content_block list"

record anthropic_request =
  areq_model :: string
  areq_max_tokens :: int
  areq_messages :: "json list"
  areq_tools :: "AnthropicTool list option"

type_synonym 'w anthropic_env = "('w, anthropic_request, anthropic_reply) env"

fun json_of_block :: "content_block \<Rightarrow> json" where
  "json_of_block (TextBlock t) = JObj [(''type'', JStr ''text''), (''text'', JStr t)]"
| "json_of_block (ToolUseBlock i n input) =
     JObj [(''type'', JStr ''tool_use''), (''id'', JStr i), (''name'', JStr n),
           (''input'', input)]"

definition assistant_blocks_message :: "content_block list \<Rightarrow> json" where
  "assistant_blocks_message content =
     JObj [(''role'', JStr ''assistant''), (''content'', JArr (map json_of_block content))]"

definition tool_result_block :: "string \<Rightarrow> string \<Rightarrow> json" where
  "tool_result_block tool_use_id content =
     JObj [(''type'', JStr ''tool_result''), (''tool_use_id'', JStr tool_use_id),
           (''content'', JStr content)]"

definition tool_error_block :: "string \<Rightarrow> string \<Rightarrow> json" where
  "tool_error_block tool_use_id content =
     JObj [(''type'', JStr ''tool_result''), (''tool_use_id'', JStr tool_use_id),
           (''content'', JStr content), (''is_error'', JBool True)]"

definition tool_results_message :: "json list \<Rightarrow> json" where
  "tool_results_message toolResults =
     JObj [(''role'', JStr ''user''), (''content'', JArr toolResults)]"

text \<open>
  \<^verbatim>\<open>
  private async callAnthropic(messages: AnthropicMessage[], tools?: AnthropicTool[]): Promise<any> {
    const requestBody: any = { model: this.options.model, max_tokens: this.options.maxTokens, messages: messages };
    if (tools && tools.length > 0) { requestBody.tools = tools; }
    const response = await fetch('https://api.anthropic.com/v1/messages', { ... });
    if (!response.ok) {
      const error = await response.text();
      throw new Error(`Anthropic API error: ${response.status} ${error}`);
    }
    return response.json();
  }
  \<close>
\<close>

definition callAnthropic ::
  "'w anthropic_env \<Rightarrow> client \<Rightarrow> json list \<Rightarrow> AnthropicTool list \<Rightarrow> 'w
     \<Rightarrow> (exn + anthropic_reply) \<times> 'w" where
  "callAnthropic env c messages tools w =
     (let requestBody =
            \<lparr>areq_model = model c, areq_max_tokens = maxTokens c, areq_messages = messages,
             areq_tools = (if tools \<noteq> [] then Some tools else None)\<rparr>
      in case fetch env requestBody w of
           (NetworkError error, w') \<Rightarrow> (Inl error, w')
         | (HttpError status error, w') \<Rightarrow>
             (Inl (Error (''Anthropic API error: '' @ string_of_nat status @ '' '' @ error)),
              w')
         | (HttpOk reply, w') \<Rightarrow> (Inr reply, w'))"

text \<open>
  The \<^verbatim>\<open>for (const contentBlock of response.content)\<close> loop, which collects the results
  in the local array \<^verbatim>\<open>toolResults\<close>:
  \<^verbatim>\<open>
  if (contentBlock.type === 'tool_use') {
    try {
      const toolResult = await this.callTool(contentBlock.name, contentBlock.input);
      let resultContent = ...;
      toolResults.push({ type: 'tool_result', tool_use_id: contentBlock.id, content: resultContent });
    } catch (error: any) {
      toolResults.push({ type: 'tool_result', tool_use_id: contentBlock.id,
                         content: `Error: ${error.message}`, is_error: true });
    }
  }
  \<close>
\<close>

definition try_tool_use ::
  "'w anthropic_env \<Rightarrow> client \<Rightarrow> string \<Rightarrow> json \<Rightarrow> 'w \<Rightarrow> (exn + string) \<times> 'w" where
  "try_tool_use env c name input w =
     (case callTool env c name input w of
        (Inl error, w') \<Rightarrow> (Inl error, w')
      | (Inr toolResult, w') \<Rightarrow> (resultContent toolResult, w'))"

fun collect_tool_results ::
  "'w anthropic_env \<Rightarrow> client \<Rightarrow> content_block list \<Rightarrow> json list \<times> 'w \<Rightarrow> json list \<times> 'w" where
  "collect_tool_results env c [] acc = acc"
| "collect_tool_results env c (ToolUseBlock i n input # rest) (toolResults, w) =
     (case try_tool_use env c n input w of
        (Inr text, w') \<Rightarrow>
          collect_tool_results env c rest (toolResults @ [tool_result_block i text], w')
      | (Inl error, w') \<Rightarrow>
          collect_tool_results env c rest
            (toolResults @ [tool_error_block i (''Error: '' @ message error)], w'))"
| "collect_tool_results env c (TextBlock t # rest) acc = collect_tool_results env c rest acc"

text \<open>
  \<^verbatim>\<open>
  while (response.stop_reason === 'tool_use') {
    this.conversationHistory.push({ role: 'assistant', content: response.content });
    const toolResults: any[] = [];
    for (const contentBlock of response.content) { ... }
    if (toolResults.length > 0) {
      this.conversationHistory.push({ role: 'user', content: toolResults });
      response = await this.callAnthropic(this.conversationHistory, anthropicTools);
    } else {
      break;
    }
  }
  this.conversationHistory.push({ role: 'assistant', content: response.content });
  let finalResponse = '';
  for (const contentBlock of response.content) {
    if (contentBlock.type === 'text') { finalResponse += contentBlock.text; }
  }
  return finalResponse;
  \<close>
  \<open>anthropic_round\<close> is one pass through the body of the \<^verbatim>\<open>while\<close> loop: \<open>Inl\<close> leaves the
  loop (by the exception of the provider call, or by \<^verbatim>\<open>break\<close> with the state reached),
  \<open>Inr\<close> is the next \<^verbatim>\<open>response\<close>.
\<close>

datatype ('a, 'b) leave = Throw 'a | Break 'b

definition anthropic_round ::
  "'w anthropic_env \<Rightarrow> AnthropicTool list \<Rightarrow> anthropic_reply \<Rightarrow> client \<times> 'w
     \<Rightarrow> (exn \<times> client \<times> 'w, client \<times> 'w) leave + (anthropic_reply \<times> client \<times> 'w)" where
  "anthropic_round env anthropicTools response cw =
     (case cw of (c, w) \<Rightarrow>
        (let c1 = push_history (assistant_blocks_message (reply_content response)) c in
         case collect_tool_results env c1 (reply_content response) ([], w) of
           (toolResults, w1) \<Rightarrow>
             if 0 < length toolResults then
               (let c2 = push_history (tool_results_message toolResults) c1 in
                case callAnthropic env c2 (conversationHistory c2) anthropicTools w1 of
                  (Inl error, w2) \<Rightarrow> Inl (Throw (error, c2, w2))
                | (Inr next, w2) \<Rightarrow> Inr (next, c2, w2))
             else Inl (Break (c1, w1))))"

fun block_text :: "content_block \<Rightarrow> string" where
  "block_text (TextBlock t) = t"
| "block_text (ToolUseBlock i n input) = []"

definition final_response ::
  "anthropic_reply \<Rightarrow> client \<times> 'w \<Rightarrow> (exn + string) \<times> client \<times> 'w" where
  "final_response response cw =
     (case cw of (c, w) \<Rightarrow>
        (Inr (concat (map block_text (reply_content response))),
         push_history (assistant_blocks_message (reply_content response)) c, w))"




section \<open>Copies handed out by the getters\<close>

text \<open>
  \<^verbatim>\<open>
  getHistory(): OpenAIMessage[] { return [...this.conversationHistory]; }
  get tools(): any[] { return [...this.availableTools]; }
  \<close>
  Whether a caller can reach the client's arrays depends on the identity of arrays, so
  here arrays live in a store: an array is a reference, the store maps a reference to the
  array's elements, and the elements are references to the message or tool objects, which
  live in a second map. The client's fields hold references. A spread \<^verbatim>\<open>[...a]\<close> allocates
  a new array with the elements of \<^verbatim>\<open>a\<close>; the objects are not copied.
\<close>

type_synonym ref = nat

record store =
  arrays :: "ref \<Rightarrow> ref list option"
  objects :: "ref \<Rightarrow> json option"
  next_ref :: ref

record client_refs =
  conversationHistory_ref :: ref
  availableTools_ref :: ref

definition elements :: "store \<Rightarrow> ref \<Rightarrow> ref list" where
  "elements st a = (case arrays st a of None \<Rightarrow> [] | Some xs \<Rightarrow> xs)"

definition spread :: "ref \<Rightarrow> store \<Rightarrow> ref \<times> store" where
  "spread a st =
     (next_ref st,
      st\<lparr>arrays := (arrays st)(next_ref st \<mapsto> elements st a), next_ref := Suc (next_ref st)\<rparr>)"

definition getHistory :: "client_refs \<Rightarrow> store \<Rightarrow> ref \<times> store" where
  "getHistory cl st = spread (conversationHistory_ref cl) st"

definition tools :: "client_refs \<Rightarrow> store \<Rightarrow> ref \<times> store" where
  "tools cl st = spread (availableTools_ref cl) st"

text \<open>
  An in-place mutation of the array \<open>a\<close> (\<^verbatim>\<open>push\<close>, \<^verbatim>\<open>pop\<close>, \<^verbatim>\<open>splice\<close>, \<^verbatim>\<open>a[i] = x\<close>,
  \<^verbatim>\<open>a.length = n\<close>, ...) replaces its elements by a function of them.
\<close>

definition mutate_array :: "ref \<Rightarrow> (ref list \<Rightarrow> ref list) \<Rightarrow> store \<Rightarrow> store" where
  "mutate_array a f st = st\<lparr>arrays := (arrays st)(a \<mapsto> f (elements st a))\<rparr>"

text \<open>The values that an array holds: its objects, in order.\<close>

definition array_contents :: "store \<Rightarrow> ref \<Rightarrow> json option list" where
  "array_contents st a = map (objects st) (elements st a)"

text \<open>Every reference in use lies below the allocation pointer.\<close>

definition allocated :: "client_refs \<Rightarrow> store \<Rightarrow> bool" where
  "allocated cl st =
     (conversationHistory_ref cl < next_ref st \<and> availableTools_ref cl < next_ref st)"

section \<open>Vocabulary of the statements\<close>


subsection \<open>Collaborators for the worked scenarios\<close>

text \<open>
  The state of the collaborators in the scenarios: the number of completion requests
  served so far and the log of the tool invocations that reached the tool server.
\<close>

type_synonym world = "nat \<times> (string \<times> json) list"

text \<open>A tool server with the single tool \<^verbatim>\<open>add\<close>; any other name is rejected.\<close>

definition add_tool :: json where
  "add_tool =
     JObj [(''name'', JStr ''add''),
           (''inputSchema'',
            JObj [(''type'', JStr ''object''),
                  (''properties'', JObj [(''a'', JObj [(''type'', JStr ''number'')]),
                                         (''b'', JObj [(''type'', JStr ''number'')])])])]"

definition add_server_call :: "string \<Rightarrow> json \<Rightarrow> world \<Rightarrow> (exn + json) \<times> world" where
  "add_server_call name arguments w =
     (case w of (n, log) \<Rightarrow>
        (if name = ''add'' then
           Inr (JObj [(''content'',
                       JArr [JObj [(''type'', JStr ''text''), (''text'', JStr ''Result: 4'')]])])
         else Inl (Exn ''McpError'' (''MCP error -32603: Unknown tool: '' @ name)),
         (n, log @ [(name, arguments)])))"

text \<open>
  \<^verbatim>\<open>JSON.parse\<close> on the three argument strings that the scenarios use; the last one is cut
  short and is rejected.
\<close>

definition parse_arguments :: "string \<Rightarrow> exn + json" where
  \<open>parse_arguments s =
     (if s = ''{}'' then Inr (JObj [])
      else if s = ''{"a":2,"b":2}'' then Inr (JObj [(''a'', JNum 2), (''b'', JNum 2)])
      else Inl (Exn ''SyntaxError'' ''Unexpected end of JSON input''))\<close>

text \<open>A provider that answers its \<open>n\<close>-th request (from 0) with \<open>script n\<close>.\<close>

definition scripted :: "(nat \<Rightarrow> 'rep response) \<Rightarrow> (world, 'req, 'rep) env" where
  "scripted script =
     \<lparr>sdk_connect = (\<lambda>w. (Inr (), w)),
      sdk_listTools = (\<lambda>w. (Inr (JObj [(''tools'', JArr [add_tool])]), w)),
      sdk_callTool = add_server_call,
      fetch = (\<lambda>requestBody w. case w of (n, log) \<Rightarrow> (script n, (Suc n, log))),
      JSON_parse = parse_arguments\<rparr>"

text \<open>A tool server whose listing call is rejected.\<close>

definition unlisted :: "(world, 'req, 'rep) env" where
  "unlisted =
     \<lparr>sdk_connect = (\<lambda>w. (Inr (), w)),
      sdk_listTools = (\<lambda>w. (Inl (Exn ''McpError'' ''MCP error -32601: Method not found''), w)),
      sdk_callTool = add_server_call,
      fetch = (\<lambda>requestBody w. (NetworkError (Exn ''TypeError'' ''fetch failed''), w)),
      JSON_parse = parse_arguments\<rparr>"

definition connected_client :: client where
  "connected_client =
     \<lparr>model = ''gpt-4'', maxTokens = 4000, availableTools = [add_tool],
      conversationHistory = [], isConnected = True\<rparr>"

definition add_call :: tool_call where
  \<open>add_call = \<lparr>call_id = ''call_1'', function_name = ''add'',
                 function_arguments = ''{"a":2,"b":2}''\<rparr>\<close>

definition requests_add :: openai_reply where
  "requests_add = \<lparr>msg_content = None, msg_tool_calls = Some [add_call]\<rparr>"

definition answers_four :: openai_reply where
  "answers_four = \<lparr>msg_content = Some ''The answer is 4.'', msg_tool_calls = None\<rparr>"

text \<open>Two more requests: for a tool that the server does not have, and with cut-off arguments.\<close>

definition multiply_call :: tool_call where
  \<open>multiply_call = \<lparr>call_id = ''call_2'', function_name = ''multiply'',
                      function_arguments = ''{}''\<rparr>\<close>

definition broken_call :: tool_call where
  \<open>broken_call = \<lparr>call_id = ''call_3'', function_name = ''add'',
                    function_arguments = ''{"a":''\<rparr>\<close>

definition requests_failing :: openai_reply where
  "requests_failing = \<lparr>msg_content = None, msg_tool_calls = Some [multiply_call, broken_call]\<rparr>"

text \<open>Replies of the Anthropic endpoint: two tool requests after a text, and a final text.\<close>

definition uses_tools :: anthropic_reply where
  "uses_tools =
     \<lparr>stop_reason = ''tool_use'',
      reply_content =
        [TextBlock ''Let me compute that.'',
         ToolUseBlock ''toolu_1'' ''add'' (JObj [(''a'', JNum 2), (''b'', JNum 2)]),
         ToolUseBlock ''toolu_2'' ''multiply'' (JObj [])]\<rparr>"

definition ends_turn :: anthropic_reply where
  "ends_turn =
     \<lparr>stop_reason = ''end_turn'',
      reply_content = [TextBlock ''The answer '', TextBlock ''is 4.'']\<rparr>"

text \<open>Replies without any text and without tool requests.\<close>

definition silent_reply :: openai_reply where
  "silent_reply = \<lparr>msg_content = None, msg_tool_calls = None\<rparr>"

definition blank_reply :: openai_reply where
  "blank_reply = \<lparr>msg_content = Some [], msg_tool_calls = None\<rparr>"

definition silent_turn :: anthropic_reply where
  "silent_turn = \<lparr>stop_reason = ''end_turn'', reply_content = []\<rparr>"

subsection \<open>The loops cut off after a number of rounds\<close>




subsection \<open>Tool requests of an Anthropic reply\<close>


subsection \<open>The text of a stored assistant turn\<close>



subsection \<open>A store for the worked scenario of the getters\<close>

text \<open>
  The history array (reference 0) holds two messages, the catalog array (reference 1) one
  tool; the messages and the tool are the objects 10, 11 and 20.
\<close>

definition example_store :: store where
  "example_store =
     \<lparr>arrays = [0 \<mapsto> [10, 11], 1 \<mapsto> [20]],
      objects = [10 \<mapsto> user_message ''what is 2+2'',
                 11 \<mapsto> assistant_message (Some ''The answer is 4.''),
                 20 \<mapsto> add_tool],
      next_ref = 21\<rparr>"

definition example_refs :: client_refs where
  "example_refs = \<lparr>conversationHistory_ref = 0, availableTools_ref = 1\<rparr>"

section \<open>Properties of the tool-result normalisation\<close>












section \<open>Properties of the tool catalog\<close>


lemma map_exn_Inr_set:
  "map_exn f xs = Inr ys \<Longrightarrow> x \<in> set xs \<Longrightarrow> \<exists>y. f x = Inr y"
  by (induction xs arbitrary: ys) (auto split: sum.splits)

text \<open>A catalog that \<^verbatim>\<open>loadTools\<close> has stored holds no \<^verbatim>\<open>null\<close> entry.\<close>

lemma listed_tools_no_null: "listed_tools result = Inr ts \<Longrightarrow> JNull \<notin> set ts"
proof
  assume r: "listed_tools result = Inr ts" and n: "JNull \<in> set ts"
  show False
  proof (cases "ts = []")
    case True
    with n show False by simp
  next
    case False
    from r False obtain names where
      "map_exn (\<lambda>t. case t of JNull \<Rightarrow> Inl (null_read ''name'') | _ \<Rightarrow> Inr (get_prop t ''name'')) ts
         = Inr names"
      by (auto simp: listed_tools_def split: json.splits if_splits option.splits sum.splits)
    from map_exn_Inr_set [OF this n] show False by simp
  qed
qed

lemma loadTools_no_null:
  "loadTools env c w = (r, c', w') \<Longrightarrow> JNull \<notin> set (availableTools c')"
  by (auto simp: loadTools_def split: prod.splits sum.splits dest: listed_tools_no_null)





lemma or_else_defined: "or_else a (Some d) \<noteq> None"
  by (cases a) (simp_all add: or_else_def)

text \<open>
  The schema of one tool: the name is passed through, the description and the parameter
  schema are those of the tool when they are truthy and the defaults otherwise (also for
  an empty description), and neither is ever \<^verbatim>\<open>undefined\<close>.
\<close>

lemma openai_schema_fields:
  "fn_name (openai_schema tool) = get_prop tool ''name''"
  "fn_description (openai_schema tool) \<noteq> None"
  "fn_parameters (openai_schema tool) \<noteq> None"
  "truthy (get_prop tool ''description'') \<Longrightarrow>
     fn_description (openai_schema tool) = get_prop tool ''description''"
  "\<not> truthy (get_prop tool ''description'') \<Longrightarrow>
     fn_description (openai_schema tool)
       = Some (JStr (''Execute '' @ js_String_opt (get_prop tool ''name'')))"
  "truthy (get_prop tool ''inputSchema'') \<Longrightarrow>
     fn_parameters (openai_schema tool) = get_prop tool ''inputSchema''"
  "\<not> truthy (get_prop tool ''inputSchema'') \<Longrightarrow>
     fn_parameters (openai_schema tool)
       = Some (JObj [(''type'', JStr ''object''), (''properties'', JObj []), (''required'', JArr [])])"
  by (simp_all add: openai_schema_def or_else_defined) (simp_all add: or_else_def)

lemma anthropic_schema_fields:
  "at_name (anthropic_schema tool) = get_prop tool ''name''"
  "at_description (anthropic_schema tool) \<noteq> None"
  "at_input_schema (anthropic_schema tool) \<noteq> None"
  "truthy (get_prop tool ''description'') \<Longrightarrow>
     at_description (anthropic_schema tool) = get_prop tool ''description''"
  "\<not> truthy (get_prop tool ''description'') \<Longrightarrow>
     at_description (anthropic_schema tool)
       = Some (JStr (''Execute '' @ js_String_opt (get_prop tool ''name'')))"
  "truthy (get_prop tool ''inputSchema'') \<Longrightarrow>
     at_input_schema (anthropic_schema tool) = get_prop tool ''inputSchema''"
  "\<not> truthy (get_prop tool ''inputSchema'') \<Longrightarrow>
     at_input_schema (anthropic_schema tool)
       = Some (JObj [(''type'', JStr ''object''), (''properties'', JObj [])])"
  by (simp_all add: anthropic_schema_def or_else_defined) (simp_all add: or_else_def)

text \<open>
  C5 at the input on which the code departs from it. The tool \<^verbatim>\<open>add\<close> is listed with a
  name and an input schema and without a description. \<^verbatim>\<open>transformMCPToolsToOpenAI\<close>
  passes the missing description on as \<^verbatim>\<open>undefined\<close>, where C5 (and the two conversions of
  \<^verbatim>\<open>MCPClient\<close>) put \<^verbatim>\<open>"Execute add"\<close>.
\<close>

theorem transformMCPToolsToOpenAI_no_default:
  "transformMCPToolsToOpenAI [add_tool]
     = Inr [\<lparr>tool_type = ''function'', fn_name = Some (JStr ''add''), fn_description = None,
             fn_parameters = get_prop add_tool ''inputSchema''\<rparr>]
   \<and> convertMCPToolsToOpenAI connected_client
     = Inr [\<lparr>tool_type = ''function'', fn_name = Some (JStr ''add''),
             fn_description = Some (JStr ''Execute add''),
             fn_parameters = get_prop add_tool ''inputSchema''\<rparr>]"
  by (simp add: transformMCPToolsToOpenAI_def transformed_tool_of_def transformed_schema_def
      convertMCPToolsToOpenAI_def openai_tool_of_def openai_schema_def or_else_def
      js_String_opt_def connected_client_def add_tool_def)

text \<open>
  C9, as the code has it. When the listing call is rejected, \<^verbatim>\<open>loadTools\<close> raises nothing:
  it returns normally with the catalog reset to the empty list, whatever the catalog held
  before; \<^verbatim>\<open>connect\<close> then completes with the client connected, and the conversions of the
  empty catalog yield no schema, so that the requests go out without tools.
\<close>

theorem loadTools_absorbs_listing_failure:
  "(sdk_listTools env w = (Inl e, w') \<longrightarrow>
      loadTools env c w = (Inr (), c\<lparr>availableTools := []\<rparr>, w'))
   \<and> (\<not> isConnected c0 \<and> sdk_connect env0 w0 = (Inr (), w1)
        \<and> sdk_listTools env0 w1 = (Inl e1, w2) \<longrightarrow>
      connect env0 c0 w0 = (Inr (), c0\<lparr>isConnected := True, availableTools := []\<rparr>, w2))
   \<and> convertMCPToolsToOpenAI (c3\<lparr>availableTools := []\<rparr>) = Inr []
   \<and> convertMCPToolsToAnthropic (c3\<lparr>availableTools := []\<rparr>) = Inr []"
  by (simp add: loadTools_def connect_def convertMCPToolsToOpenAI_def
      convertMCPToolsToAnthropic_def)

theorem loadTools_absorbs_listing_failure_witness:
  "loadTools (unlisted :: world openai_env) connected_client (0, [])
     = (Inr (), connected_client\<lparr>availableTools := []\<rparr>, (0, []))
   \<and> connect (unlisted :: world openai_env) (connected_client\<lparr>isConnected := False\<rparr>) (0, [])
     = (Inr (), connected_client\<lparr>isConnected := True, availableTools := []\<rparr>, (0, []))"
  using loadTools_absorbs_listing_failure
    [of "unlisted :: world openai_env" "(0, [])"
        "Exn ''McpError'' ''MCP error -32601: Method not found''" "(0, [])" connected_client
        "connected_client\<lparr>isConnected := False\<rparr>" "unlisted :: world openai_env"
        "(0, [])" "(0, [])" "Exn ''McpError'' ''MCP error -32601: Method not found''" "(0, [])"]
  by (simp add: unlisted_def connected_client_def)

text \<open>
  C9 as stated fails: with a tool server whose listing call is rejected, catalog loading
  does not fail. \<^verbatim>\<open>loadTools\<close> returns without an exception.
\<close>

theorem loadTools_counterexample:
  "sdk_listTools (unlisted :: world openai_env) (0, [])
     = (Inl (Exn ''McpError'' ''MCP error -32601: Method not found''), (0, []))
   \<and> fst (loadTools (unlisted :: world openai_env) connected_client (0, [])) = Inr ()"
  by (simp add: unlisted_def loadTools_def)

section \<open>Properties of the dispatch of tool calls\<close>











lemmas scenario_defs =
  scripted_def unlisted_def connected_client_def add_tool_def add_server_call_def
  parse_arguments_def add_call_def multiply_call_def broken_call_def requests_add_def
  answers_four_def uses_tools_def ends_turn_def requests_failing_def silent_reply_def
  blank_reply_def silent_turn_def

lemmas client_defs =
  push_history_def callTool_def callOpenAI_def callAnthropic_def try_tool_call_def
  execute_tool_call_def try_tool_use_def tool_round_def anthropic_round_def tool_calls_of_def
  has_tool_calls_def content_or_def final_answer_def final_answer1_def final_response_def
  convertMCPToolsToOpenAI_def convertMCPToolsToAnthropic_def openai_tool_of_def
  anthropic_tool_of_def openai_schema_def anthropic_schema_def or_else_def js_String_opt_def
  resultContent_def item_entry_def js_join_def join_element_def exn_toString_def Error_def


lemma execute_tool_call_parse_error:
  "JSON_parse env (function_arguments tc) = Inl e \<Longrightarrow>
   execute_tool_call env tc (c, w)
     = (push_history (tool_message (''Error: '' @ message e) (call_id tc)) c, w)"
  by (simp add: execute_tool_call_def try_tool_call_def)

lemma execute_tool_call_server_error:
  "JSON_parse env (function_arguments tc) = Inr args \<Longrightarrow> isConnected c \<Longrightarrow>
   sdk_callTool env (function_name tc) args w = (Inl e, w') \<Longrightarrow>
   execute_tool_call env tc (c, w)
     = (push_history
          (tool_message (''Error: Tool call failed: '' @ exn_toString e) (call_id tc)) c, w')"
  by (simp add: execute_tool_call_def try_tool_call_def callTool_def Error_def)

lemma tool_round_unfold:
  "execute_tool_calls env (tool_calls_of r)
     (push_history (assistant_tool_message (msg_content r) (tool_calls_of r)) c, w) = (c3, w3)
   \<Longrightarrow> tool_round env ts r (c, w)
     = (case callOpenAI env c3 (conversationHistory c3) ts w3 of
          (Inl error, w4) \<Rightarrow> Inl (error, c3, w4)
        | (Inr nxt, w4) \<Rightarrow> Inr (nxt, c3, w4))"
  by (simp add: tool_round_def)

lemma collect_tool_results_server_error:
  "isConnected c \<Longrightarrow> sdk_callTool env n input w = (Inl e, w') \<Longrightarrow>
   collect_tool_results env c (ToolUseBlock i n input # rest) (acc, w)
     = collect_tool_results env c rest
         (acc @ [tool_error_block i (''Error: Tool call failed: '' @ exn_toString e)], w')"
  by (simp add: try_tool_use_def callTool_def Error_def)

lemma anthropic_round_unfold:
  "collect_tool_results env (push_history (assistant_blocks_message (reply_content r)) c)
     (reply_content r) ([], w) = (rs, w1) \<Longrightarrow> rs \<noteq> [] \<Longrightarrow>
   anthropic_round env ts r (c, w)
     = (case callAnthropic env
               (push_history (tool_results_message rs)
                  (push_history (assistant_blocks_message (reply_content r)) c))
               (conversationHistory
                  (push_history (tool_results_message rs)
                     (push_history (assistant_blocks_message (reply_content r)) c)))
               ts w1 of
          (Inl error, w2) \<Rightarrow>
            Inl (Throw (error,
                   push_history (tool_results_message rs)
                     (push_history (assistant_blocks_message (reply_content r)) c), w2))
        | (Inr nxt, w2) \<Rightarrow>
            Inr (nxt,
                 push_history (tool_results_message rs)
                   (push_history (assistant_blocks_message (reply_content r)) c), w2))"
  by (simp add: anthropic_round_def Let_def)

lemma tool_message_props:
  "get_prop (tool_message tx i) ''tool_call_id'' = Some (JStr i)"
  "get_prop (tool_message tx i) ''content'' = Some (JStr tx)"
  "get_prop (tool_message tx i) ''is_error'' = None"
  by (simp_all add: tool_message_def)

lemma tool_error_block_props:
  "get_prop (tool_error_block i tx) ''tool_use_id'' = Some (JStr i)"
  "get_prop (tool_error_block i tx) ''content'' = Some (JStr tx)"
  "get_prop (tool_error_block i tx) ''is_error'' = Some (JBool True)"
  by (simp_all add: tool_error_block_def)

text \<open>
  C2, as the code has it. A tool call whose dispatch fails is reported to the model as
  data and the round goes on to the provider:
  \<^item> OpenAI clients, arguments that do not parse: a tool message with the call's id and
    the text \<^verbatim>\<open>Error: \<close> followed by the parser's message is appended, and the tool server
    is not called (its state \<open>w\<close> is unchanged);
  \<^item> OpenAI clients, a call that the tool server rejects (transport failure, unknown
    tool): a tool message with the call's id and the text
    \<^verbatim>\<open>Error: Tool call failed: \<close> followed by the server's error is appended;
  \<^item> such a tool message has the properties \<^verbatim>\<open>role\<close>, \<^verbatim>\<open>content\<close> and \<^verbatim>\<open>tool_call_id\<close> and no
    \<^verbatim>\<open>is_error\<close> property;
  \<^item> Anthropic client (whose tool input needs no parsing), a call that the tool server
    rejects: a \<^verbatim>\<open>tool_result\<close> entry with the block's id, the text
    \<^verbatim>\<open>Error: Tool call failed: \<close> followed by the server's error, and \<^verbatim>\<open>is_error: true\<close>;
  \<^item> in both clients the dispatch of a round ends with the provider call on the history
    so extended, and only that call's exception leaves the round.
\<close>

theorem failed_tool_call_is_reported:
  "(JSON_parse env (function_arguments tc) = Inl e \<longrightarrow>
      execute_tool_call env tc (c, w)
        = (push_history (tool_message (''Error: '' @ message e) (call_id tc)) c, w))
   \<and> (JSON_parse env1 (function_arguments tc1) = Inr args \<and> isConnected c1
        \<and> sdk_callTool env1 (function_name tc1) args w1 = (Inl e1, w1') \<longrightarrow>
      execute_tool_call env1 tc1 (c1, w1)
        = (push_history
             (tool_message (''Error: Tool call failed: '' @ exn_toString e1) (call_id tc1)) c1,
           w1'))
   \<and> get_prop (tool_message tx i) ''tool_call_id'' = Some (JStr i)
   \<and> get_prop (tool_message tx i) ''content'' = Some (JStr tx)
   \<and> get_prop (tool_message tx i) ''is_error'' = None
   \<and> (execute_tool_calls env2 (tool_calls_of r)
          (push_history (assistant_tool_message (msg_content r) (tool_calls_of r)) c2, w2)
          = (c3, w3) \<longrightarrow>
        tool_round env2 ts r (c2, w2)
          = (case callOpenAI env2 c3 (conversationHistory c3) ts w3 of
               (Inl error, w4) \<Rightarrow> Inl (error, c3, w4)
             | (Inr nxt, w4) \<Rightarrow> Inr (nxt, c3, w4)))
   \<and> (isConnected ac \<and> sdk_callTool aenv n input aw = (Inl ae, aw') \<longrightarrow>
        collect_tool_results aenv ac (ToolUseBlock i1 n input # rest) (acc, aw)
          = collect_tool_results aenv ac rest
              (acc @ [tool_error_block i1 (''Error: Tool call failed: '' @ exn_toString ae)], aw'))
   \<and> get_prop (tool_error_block i2 tx2) ''tool_use_id'' = Some (JStr i2)
   \<and> get_prop (tool_error_block i2 tx2) ''content'' = Some (JStr tx2)
   \<and> get_prop (tool_error_block i2 tx2) ''is_error'' = Some (JBool True)
   \<and> (collect_tool_results aenv1 (push_history (assistant_blocks_message (reply_content ar)) ac1)
          (reply_content ar) ([], aw1) = (rs, aw2) \<and> rs \<noteq> [] \<longrightarrow>
        anthropic_round aenv1 ats ar (ac1, aw1)
          = (case callAnthropic aenv1
                    (push_history (tool_results_message rs)
                       (push_history (assistant_blocks_message (reply_content ar)) ac1))
                    (conversationHistory
                       (push_history (tool_results_message rs)
                          (push_history (assistant_blocks_message (reply_content ar)) ac1)))
                    ats aw2 of
               (Inl error, aw3) \<Rightarrow>
                 Inl (Throw (error,
                        push_history (tool_results_message rs)
                          (push_history (assistant_blocks_message (reply_content ar)) ac1), aw3))
             | (Inr nxt, aw3) \<Rightarrow>
                 Inr (nxt,
                      push_history (tool_results_message rs)
                        (push_history (assistant_blocks_message (reply_content ar)) ac1), aw3)))"
  using execute_tool_call_parse_error [of env tc e c w]
    execute_tool_call_server_error [of env1 tc1 args c1 w1 e1 w1']
    tool_message_props [of tx i] tool_error_block_props [of i2 tx2]
    tool_round_unfold [of env2 r c2 w2 c3 w3 ts]
    collect_tool_results_server_error [of ac aenv n input aw ae aw' i1 rest acc]
    anthropic_round_unfold [of aenv1 ar ac1 aw1 rs aw2 ats]
  by blast

theorem failed_tool_call_is_reported_witness:
  "execute_tool_call (scripted (\<lambda>n. HttpOk answers_four)) broken_call (connected_client, (1, []))
     = (push_history (tool_message ''Error: Unexpected end of JSON input'' ''call_3'')
          connected_client, (1, []))
   \<and> execute_tool_call (scripted (\<lambda>n. HttpOk answers_four)) multiply_call
         (connected_client, (1, []))
     = (push_history
          (tool_message
             ''Error: Tool call failed: McpError: MCP error -32603: Unknown tool: multiply''
             ''call_2'')
          connected_client, (1, [(''multiply'', JObj [])]))
   \<and> tool_round (scripted (\<lambda>n. HttpOk answers_four)) [] requests_failing
         (connected_client, (1, []))
     = Inr (answers_four,
            connected_client\<lparr>conversationHistory :=
              [assistant_tool_message None [multiply_call, broken_call],
               tool_message
                 ''Error: Tool call failed: McpError: MCP error -32603: Unknown tool: multiply''
                 ''call_2'',
               tool_message ''Error: Unexpected end of JSON input'' ''call_3'']\<rparr>,
            (2, [(''multiply'', JObj [])]))
   \<and> collect_tool_results (scripted (\<lambda>n. HttpOk ends_turn)) connected_client
         [ToolUseBlock ''toolu_2'' ''multiply'' (JObj [])] ([], (1, []))
     = ([tool_error_block ''toolu_2''
           ''Error: Tool call failed: McpError: MCP error -32603: Unknown tool: multiply''],
        (1, [(''multiply'', JObj [])]))
   \<and> anthropic_round (scripted (\<lambda>n. HttpOk ends_turn)) [] uses_tools (connected_client, (1, []))
     = Inr (ends_turn,
            connected_client\<lparr>conversationHistory :=
              [assistant_blocks_message (reply_content uses_tools),
               tool_results_message
                 [tool_result_block ''toolu_1'' ''Result: 4'',
                  tool_error_block ''toolu_2''
                    ''Error: Tool call failed: McpError: MCP error -32603: Unknown tool: multiply'']]\<rparr>,
            (2, [(''add'', JObj [(''a'', JNum 2), (''b'', JNum 2)]), (''multiply'', JObj [])]))"
  using failed_tool_call_is_reported
    [where env = "scripted (\<lambda>n. HttpOk answers_four)" and tc = broken_call
       and e = "Exn ''SyntaxError'' ''Unexpected end of JSON input''"
       and c = connected_client and w = "(1, [])"
       and ?env1.0 = "scripted (\<lambda>n. HttpOk answers_four)" and ?tc1.0 = multiply_call
       and args = "JObj []" and ?c1.0 = connected_client and ?w1.0 = "(1, [])"
       and ?e1.0 = "Exn ''McpError'' ''MCP error -32603: Unknown tool: multiply''"
       and w1' = "(1, [(''multiply'', JObj [])])"
       and tx = "''Error: Unexpected end of JSON input''" and i = "''call_3''"
       and ?env2.0 = "scripted (\<lambda>n. HttpOk answers_four)" and r = requests_failing
       and ?c2.0 = connected_client and ?w2.0 = "(1, [])"
       and ?c3.0 = "connected_client\<lparr>conversationHistory :=
              [assistant_tool_message None [multiply_call, broken_call],
               tool_message
                 ''Error: Tool call failed: McpError: MCP error -32603: Unknown tool: multiply''
                 ''call_2'',
               tool_message ''Error: Unexpected end of JSON input'' ''call_3'']\<rparr>"
       and ?w3.0 = "(1, [(''multiply'', JObj [])])" and ts = "[]"
       and ac = connected_client and aenv = "scripted (\<lambda>n. HttpOk ends_turn)"
       and n = "''multiply''" and input = "JObj []" and aw = "(1, [])"
       and ae = "Exn ''McpError'' ''MCP error -32603: Unknown tool: multiply''"
       and aw' = "(1, [(''multiply'', JObj [])])" and ?i1.0 = "''toolu_2''" and rest = "[]"
       and acc = "[]" and ?i2.0 = "''toolu_2''"
       and ?tx2.0 = "''Error: Tool call failed: McpError: MCP error -32603: Unknown tool: multiply''"
       and ?aenv1.0 = "scripted (\<lambda>n. HttpOk ends_turn)" and ar = uses_tools
       and ?ac1.0 = connected_client and ?aw1.0 = "(1, [])"
       and rs = "[tool_result_block ''toolu_1'' ''Result: 4'',
                  tool_error_block ''toolu_2''
                    ''Error: Tool call failed: McpError: MCP error -32603: Unknown tool: multiply'']"
       and ?aw2.0 = "(1, [(''add'', JObj [(''a'', JNum 2), (''b'', JNum 2)]),
                          (''multiply'', JObj [])])"
       and ats = "[]"]
  by (simp add: scenario_defs client_defs)

text \<open>
  C2 as stated fails in the OpenAI clients: the tool message appended for a call whose
  arguments do not parse carries no \<^verbatim>\<open>is_error\<close> property at all; the failure is marked by
  the text alone.
\<close>

theorem failed_tool_call_counterexample:
  "fst (execute_tool_call (scripted (\<lambda>n. HttpOk answers_four)) broken_call
          (connected_client, (1, [])))
     = connected_client\<lparr>conversationHistory :=
         [JObj [(''role'', JStr ''tool''),
                (''content'', JStr ''Error: Unexpected end of JSON input''),
                (''tool_call_id'', JStr ''call_3'')]]\<rparr>
   \<and> get_prop (JObj [(''role'', JStr ''tool''),
                      (''content'', JStr ''Error: Unexpected end of JSON input''),
                      (''tool_call_id'', JStr ''call_3'')]) ''is_error''
       \<noteq> Some (JBool True)"
  by (simp add: scenario_defs client_defs tool_message_def)

section \<open>Properties of the \<^verbatim>\<open>ask\<close> loops\<close>









lemma push_history_fields [simp]:
  "conversationHistory (push_history m c) = conversationHistory c @ [m]"
  "availableTools (push_history m c) = availableTools c"
  "isConnected (push_history m c) = isConnected c"
  "model (push_history m c) = model c"
  "maxTokens (push_history m c) = maxTokens c"
  by (simp_all add: push_history_def)







subsection \<open>Failure of the provider call\<close>









subsection \<open>The final reply\<close>
















section \<open>Properties of the getters\<close>

lemma spread_facts:
  assumes "spread a st = (b, st')"
  shows "b = next_ref st" and "next_ref st' = Suc (next_ref st)"
    and "objects st' = objects st"
    and "elements st' b = elements st a"
    and "x \<noteq> next_ref st \<Longrightarrow> elements st' x = elements st x"
  using assms by (auto simp: spread_def elements_def)

lemma mutate_array_other:
  "x \<noteq> a \<Longrightarrow> elements (mutate_array a f st) x = elements st x"
  "objects (mutate_array a f st) = objects st"
  by (simp_all add: mutate_array_def elements_def)

lemma spread_copy:
  assumes "x < next_ref st" and "y < next_ref st"
    and 1: "spread x st = (a, st1)" and 2: "spread x st1 = (b, st2)"
  shows "a \<noteq> x \<and> a \<noteq> y
         \<and> elements st1 a = elements st x
         \<and> array_contents st1 a = array_contents st x
         \<and> array_contents st1 x = array_contents st x
         \<and> array_contents st1 y = array_contents st y
         \<and> array_contents (mutate_array a f st1) x = array_contents st x
         \<and> array_contents (mutate_array a f st1) y = array_contents st y
         \<and> b \<noteq> a \<and> b \<noteq> x \<and> array_contents st2 b = array_contents st1 a"
proof -
  note s1 = spread_facts [OF 1] and s2 = spread_facts [OF 2]
  have ax: "a \<noteq> x" and ay: "a \<noteq> y" using assms(1,2) s1(1) by simp_all
  have bx: "b \<noteq> x" and ba: "b \<noteq> a" using assms(1) s1(1,2) s2(1) by simp_all
  have e1: "elements st1 a = elements st x" by (rule s1(4))
  have e1x: "elements st1 x = elements st x" using s1(5) [of x] ax s1(1) by simp
  have e1y: "elements st1 y = elements st y" using s1(5) [of y] ay s1(1) by simp
  have e2: "elements st2 b = elements st1 x" by (rule s2(4))
  have mx: "elements (mutate_array a f st1) x = elements st1 x"
    using ax by (simp add: mutate_array_other)
  have my: "elements (mutate_array a f st1) y = elements st1 y"
    using ay by (simp add: mutate_array_other)
  show ?thesis
    using ax ay bx ba e1 e1x e1y e2 mx my s1(3) s2(3)
    by (simp add: array_contents_def mutate_array_other)
qed

text \<open>
  C10. In a store where the client's two arrays are allocated, \<^verbatim>\<open>getHistory()\<close> returns a
  new array \<open>a\<close>, different from both of the client's arrays, with the elements of the
  history (the same objects: the copy is shallow). The client's arrays hold what they held
  before, and they still do after any in-place mutation \<open>f\<close> of \<open>a\<close>. A second call returns
  another new array \<open>b\<close> with the same contents as \<open>a\<close>. The \<^verbatim>\<open>tools\<close> getter does the same for
  the catalog (\<open>t\<close>, \<open>u\<close>).
\<close>

theorem getters_return_fresh_copies:
  assumes "allocated cl st"
    and "getHistory cl st = (a, st1)" and "getHistory cl st1 = (b, st2)"
    and "tools cl st = (t, st3)" and "tools cl st3 = (u, st4)"
  shows "a \<noteq> conversationHistory_ref cl \<and> a \<noteq> availableTools_ref cl
         \<and> elements st1 a = elements st (conversationHistory_ref cl)
         \<and> array_contents st1 a = array_contents st (conversationHistory_ref cl)
         \<and> array_contents st1 (conversationHistory_ref cl)
             = array_contents st (conversationHistory_ref cl)
         \<and> array_contents st1 (availableTools_ref cl)
             = array_contents st (availableTools_ref cl)
         \<and> array_contents (mutate_array a f st1) (conversationHistory_ref cl)
             = array_contents st (conversationHistory_ref cl)
         \<and> array_contents (mutate_array a f st1) (availableTools_ref cl)
             = array_contents st (availableTools_ref cl)
         \<and> b \<noteq> a \<and> b \<noteq> conversationHistory_ref cl
         \<and> array_contents st2 b = array_contents st1 a
         \<and> t \<noteq> availableTools_ref cl \<and> t \<noteq> conversationHistory_ref cl
         \<and> elements st3 t = elements st (availableTools_ref cl)
         \<and> array_contents st3 t = array_contents st (availableTools_ref cl)
         \<and> array_contents st3 (availableTools_ref cl)
             = array_contents st (availableTools_ref cl)
         \<and> array_contents st3 (conversationHistory_ref cl)
             = array_contents st (conversationHistory_ref cl)
         \<and> array_contents (mutate_array t g st3) (availableTools_ref cl)
             = array_contents st (availableTools_ref cl)
         \<and> array_contents (mutate_array t g st3) (conversationHistory_ref cl)
             = array_contents st (conversationHistory_ref cl)
         \<and> u \<noteq> t \<and> u \<noteq> availableTools_ref cl
         \<and> array_contents st4 u = array_contents st3 t"
proof -
  from assms(1) have h: "conversationHistory_ref cl < next_ref st"
    and v: "availableTools_ref cl < next_ref st"
    by (simp_all add: allocated_def)
  from spread_copy [OF h v, of a st1 b st2 f] assms(2,3)
  have hist: "a \<noteq> conversationHistory_ref cl \<and> a \<noteq> availableTools_ref cl
         \<and> elements st1 a = elements st (conversationHistory_ref cl)
         \<and> array_contents st1 a = array_contents st (conversationHistory_ref cl)
         \<and> array_contents st1 (conversationHistory_ref cl)
             = array_contents st (conversationHistory_ref cl)
         \<and> array_contents st1 (availableTools_ref cl)
             = array_contents st (availableTools_ref cl)
         \<and> array_contents (mutate_array a f st1) (conversationHistory_ref cl)
             = array_contents st (conversationHistory_ref cl)
         \<and> array_contents (mutate_array a f st1) (availableTools_ref cl)
             = array_contents st (availableTools_ref cl)
         \<and> b \<noteq> a \<and> b \<noteq> conversationHistory_ref cl
         \<and> array_contents st2 b = array_contents st1 a"
    by (simp add: getHistory_def)
  from spread_copy [OF v h, of t st3 u st4 g] assms(4,5)
  have cat: "t \<noteq> availableTools_ref cl \<and> t \<noteq> conversationHistory_ref cl
         \<and> elements st3 t = elements st (availableTools_ref cl)
         \<and> array_contents st3 t = array_contents st (availableTools_ref cl)
         \<and> array_contents st3 (availableTools_ref cl)
             = array_contents st (availableTools_ref cl)
         \<and> array_contents st3 (conversationHistory_ref cl)
             = array_contents st (conversationHistory_ref cl)
         \<and> array_contents (mutate_array t g st3) (availableTools_ref cl)
             = array_contents st (availableTools_ref cl)
         \<and> array_contents (mutate_array t g st3) (conversationHistory_ref cl)
             = array_contents st (conversationHistory_ref cl)
         \<and> u \<noteq> t \<and> u \<noteq> availableTools_ref cl
         \<and> array_contents st4 u = array_contents st3 t"
    by (simp add: tools_def)
  from hist cat show ?thesis by blast
qed

theorem getters_return_fresh_copies_witness:
  "allocated example_refs example_store
   \<and> fst (getHistory example_refs example_store) = 21
   \<and> array_contents (snd (getHistory example_refs example_store)) 21
       = [Some (user_message ''what is 2+2''), Some (assistant_message (Some ''The answer is 4.''))]
   \<and> array_contents
         (mutate_array 21 (\<lambda>xs. []) (snd (getHistory example_refs example_store))) 0
       = [Some (user_message ''what is 2+2''), Some (assistant_message (Some ''The answer is 4.''))]
   \<and> fst (getHistory example_refs (snd (getHistory example_refs example_store))) = 22
   \<and> fst (tools example_refs example_store) = 21
   \<and> array_contents
         (mutate_array 21 (\<lambda>xs. xs @ [10]) (snd (tools example_refs example_store))) 1
       = [Some add_tool]"
  using getters_return_fresh_copies
    [where cl = example_refs and st = example_store
       and a = "fst (getHistory example_refs example_store)"
       and ?st1.0 = "snd (getHistory example_refs example_store)"
       and b = "fst (getHistory example_refs (snd (getHistory example_refs example_store)))"
       and ?st2.0 = "snd (getHistory example_refs (snd (getHistory example_refs example_store)))"
       and t = "fst (tools example_refs example_store)"
       and ?st3.0 = "snd (tools example_refs example_store)"
       and u = "fst (tools example_refs (snd (tools example_refs example_store)))"
       and ?st4.0 = "snd (tools example_refs (snd (tools example_refs example_store)))"
       and f = "\<lambda>xs. []" and g = "\<lambda>xs. xs @ [10]"]
  by (simp add: allocated_def example_refs_def example_store_def getHistory_def tools_def
      spread_def array_contents_def elements_def mutate_array_def)

end
